theory Spec2Isabelle
  imports Complex_Main
begin

section \<open>JavaScript values\<close>

text \<open>
  The dashboard (\<^verbatim>\<open>App\<close>, stored in \<^verbatim>\<open>OutputFilter.jsx\<close> after the component of that
  name) reads every field of a backend response with optional chaining and \<^verbatim>\<open>??\<close>, so a
  response body is an arbitrary JSON value. Numbers are IEEE doubles in the browser; here a
  finite number is an exact rational, and the infinities and NaN are kept apart. The
  rounding of double arithmetic and the sign of zero are not represented. A string is a
  list of 8-bit characters. An object is the list of its properties, each key once.
\<close>

datatype jsnum = Fin rat | PInf | NInf | NaN

datatype jsval =
    JUndefined
  | JNull
  | JBool bool
  | JNum jsnum
  | JStr string
  | JArr "jsval list"
  | JObj "(string \<times> jsval) list"

text \<open>
  Two conversions of the language work on the binary representation of doubles and on the
  full numeric-literal grammar: printing a number that is not a plain integer below
  \<open>10\<^sup>2\<^sup>1\<close>, and reading a string as a number. They are parameters of the model; every
  theorem below holds for all of them.
\<close>

record js_env =
  NumberToString :: "rat \<Rightarrow> string"
  StringToNumber :: "string \<Rightarrow> jsnum"

text \<open>\<^verbatim>\<open>a ?? b\<close>: the right operand replaces \<^verbatim>\<open>null\<close> and \<^verbatim>\<open>undefined\<close> only.\<close>

definition nullish :: "jsval \<Rightarrow> bool" where
  "nullish a = (a = JUndefined \<or> a = JNull)"

definition coalesce :: "jsval \<Rightarrow> jsval \<Rightarrow> jsval" where
  "coalesce a b = (if nullish a then b else a)"

text \<open>
  \<^verbatim>\<open>res.data?.k\<close>: \<^verbatim>\<open>undefined\<close> when the body is null or undefined, when it is an object
  without the property, and when it is a primitive or an array (none of the keys the
  application reads is a property of strings, numbers, booleans or arrays).
\<close>

fun field :: "jsval \<Rightarrow> string \<Rightarrow> jsval" where
  "field (JObj kvs) k = (case map_of kvs k of None \<Rightarrow> JUndefined | Some v \<Rightarrow> v)"
| "field _ k = JUndefined"

subsection \<open>Conversion to strings\<close>

definition digitChar :: "nat \<Rightarrow> char" where
  "digitChar d = ''0123456789'' ! (d mod 10)"

fun decimal :: "nat \<Rightarrow> string" where
  "decimal n = (if n < 10 then [digitChar n] else decimal (n div 10) @ [digitChar (n mod 10)])"

declare decimal.simps [simp del]

text \<open>\<^verbatim>\<open>Array.prototype.join\<close> with the default separator.\<close>

definition join :: "string list \<Rightarrow> string" where
  "join xs = (case xs of [] \<Rightarrow> [] | y # ys \<Rightarrow> y @ concat (map (\<lambda>s. CHR '','' # s) ys))"

fun ToString :: "js_env \<Rightarrow> jsval \<Rightarrow> string" where
  "ToString env JUndefined = ''undefined''"
| "ToString env JNull = ''null''"
| "ToString env (JBool b) = (if b then ''true'' else ''false'')"
| "ToString env (JNum NaN) = ''NaN''"
| "ToString env (JNum PInf) = ''Infinity''"
| "ToString env (JNum NInf) = ''-Infinity''"
| "ToString env (JNum (Fin x)) =
     (if of_int \<lfloor>x\<rfloor> = x \<and> \<bar>x\<bar> < 10 ^ 21
      then (if x < 0 then ''-'' else []) @ decimal (nat \<bar>\<lfloor>x\<rfloor>\<bar>)
      else NumberToString env x)"
| "ToString env (JStr s) = s"
| "ToString env (JArr xs) =
     join (map (\<lambda>x. case x of JUndefined \<Rightarrow> [] | JNull \<Rightarrow> [] | _ \<Rightarrow> ToString env x) xs)"
| "ToString env (JObj kvs) = ''[object Object]''"

subsection \<open>Conversion to numbers and the arithmetic the application uses\<close>

fun ToNumber :: "js_env \<Rightarrow> jsval \<Rightarrow> jsnum" where
  "ToNumber env JUndefined = NaN"
| "ToNumber env JNull = Fin 0"
| "ToNumber env (JBool b) = (if b then Fin 1 else Fin 0)"
| "ToNumber env (JNum n) = n"
| "ToNumber env (JStr s) = StringToNumber env s"
| "ToNumber env v = StringToNumber env (ToString env v)"

text \<open>\<^verbatim>\<open>n <= 1\<close>, \<^verbatim>\<open>n * 100\<close> and \<^verbatim>\<open>Math.round(n)\<close> (halves go up).\<close>

fun le_one :: "jsnum \<Rightarrow> bool" where
  "le_one (Fin x) = (x \<le> 1)"
| "le_one NInf = True"
| "le_one PInf = False"
| "le_one NaN = False"

fun times100 :: "jsnum \<Rightarrow> jsnum" where
  "times100 (Fin x) = Fin (x * 100)"
| "times100 n = n"

fun MathRound :: "jsnum \<Rightarrow> jsnum" where
  "MathRound (Fin x) = Fin (of_int \<lfloor>x + 1 / 2\<rfloor>)"
| "MathRound n = n"

subsection \<open>\<^verbatim>\<open>parseInt(s, 10)\<close> and \<^verbatim>\<open>String.prototype.trim\<close>\<close>

text \<open>
  White space and line terminators among the characters a \<^typ>\<open>char\<close> can hold: TAB, LF,
  VT, FF, CR, SP and NBSP.
\<close>

definition isWhiteSpace :: "char \<Rightarrow> bool" where
  "isWhiteSpace c =
     (c \<in> set [CHR 0x09, CHR 0x0A, CHR 0x0B, CHR 0x0C, CHR 0x0D, CHR 0x20, CHR 0xA0])"

definition isDigit :: "char \<Rightarrow> bool" where
  "isDigit c = (c \<in> set ''0123456789'')"

definition digitValue :: "char \<Rightarrow> int" where
  "digitValue c = int (of_char c) - 48"

text \<open>
  \<^verbatim>\<open>parseInt\<close> with radix 10: skip leading white space, take an optional sign, then the
  longest run of decimal digits; no digit gives NaN, here \<^const>\<open>None\<close>.
\<close>

definition parseInt :: "string \<Rightarrow> int option" where
  "parseInt inputString =
     (let S = dropWhile isWhiteSpace inputString;
          sign = (if S \<noteq> [] \<and> hd S = CHR ''-'' then - 1 else 1);
          S' = (if S \<noteq> [] \<and> (hd S = CHR ''+'' \<or> hd S = CHR ''-'') then tl S else S);
          Z = takeWhile isDigit S'
      in if Z = [] then None else Some (sign * foldl (\<lambda>a c. 10 * a + digitValue c) 0 Z))"

definition trim :: "string \<Rightarrow> string" where
  "trim s = rev (dropWhile isWhiteSpace (rev (dropWhile isWhiteSpace s)))"

section \<open>Presentation components\<close>

text \<open>
  The scores that \<^verbatim>\<open>App\<close> hands to the components are the clamped integers it stores, so
  the components are modelled on integers.

  \<^verbatim>\<open>RiskMeter\<close> (second component of \<^verbatim>\<open>Mascot.jsx\<close>): the value is clamped, and the colour
  and the label are chosen from the clamped value.
\<close>

definition RiskMeter_clamped :: "int \<Rightarrow> int" where
  "RiskMeter_clamped v = max 0 (min 100 v)"

definition RiskMeter_color :: "int \<Rightarrow> string" where
  "RiskMeter_color v =
     (if RiskMeter_clamped v < 40 then ''#22c55e''
      else if RiskMeter_clamped v < 70 then ''#facc15'' else ''#ef4444'')"

definition RiskMeter_label :: "int \<Rightarrow> string" where
  "RiskMeter_label v =
     (if RiskMeter_clamped v < 40 then ''Low''
      else if RiskMeter_clamped v < 70 then ''Moderate'' else ''High'')"

text \<open>\<^verbatim>\<open>LogsTable\<close>: the classes of the badge of a row, from \<^verbatim>\<open>row.score\<close>.\<close>

definition LogsTable_badge :: "int \<Rightarrow> string" where
  "LogsTable_badge s =
     (if s < 40 then ''bg-green-500/10 text-green-400 shadow-green-500/20''
      else if s < 70 then ''bg-yellow-500/10 text-yellow-300 shadow-yellow-500/20''
      else ''bg-red-500/10 text-red-400 shadow-red-500/20'')"

text \<open>
  \<^verbatim>\<open>FinalOutput\<close> (second component of the unnamed source file): the property \<^verbatim>\<open>risk\<close>
  may be null, and \<^verbatim>\<open>risk ?? 0\<close> is classified and printed.
\<close>

definition FinalOutput_shown :: "int option \<Rightarrow> int" where
  "FinalOutput_shown r = (case r of None \<Rightarrow> 0 | Some v \<Rightarrow> v)"

definition FinalOutput_badge :: "int option \<Rightarrow> string" where
  "FinalOutput_badge r =
     (if FinalOutput_shown r < 40 then ''bg-green-500/10 text-green-400''
      else if FinalOutput_shown r < 70 then ''bg-yellow-500/10 text-yellow-400''
      else ''bg-red-500/10 text-red-400'')"




section \<open>The application state\<close>

text \<open>
  The state hooks of \<^verbatim>\<open>App\<close>. The field \<open>text_input\<close> is the hook \<^verbatim>\<open>text\<close>; an entry of
  \<^verbatim>\<open>logs\<close> is the object \<^verbatim>\<open>{ text, score }\<close>. The hook \<^verbatim>\<open>glow\<close> only follows the mouse
  pointer and is left out. The two risk hooks and \<^verbatim>\<open>logs\<close> only ever receive clamped
  integers, and \<^verbatim>\<open>ctxConfidence\<close> only null or a number; the other hooks receive whatever
  the backend sent.
\<close>

record log_entry =
  log_text :: jsval
  log_score :: int

record app_state =
  text_input :: string
  sanitized :: jsval
  risk :: int
  lastRisk :: int
  logs :: "log_entry list"
  loading :: bool
  ctxCategory :: jsval
  ctxConfidence :: "jsnum option"
  llmText :: jsval
  filteredOriginal :: jsval
  filteredSafe :: jsval
  finalText :: jsval
  finalRisk :: "int option"

definition initialState :: app_state where
  "initialState =
     \<lparr>text_input = [], sanitized = JStr [], risk = 0, lastRisk = 0, logs = [],
      loading = False, ctxCategory = JNull, ctxConfidence = None, llmText = JStr [],
      filteredOriginal = JStr [], filteredSafe = JStr [], finalText = JStr [],
      finalRisk = None\<rparr>"

definition clearPipeline :: "app_state \<Rightarrow> app_state" where
  "clearPipeline st =
     st\<lparr>sanitized := JStr [], ctxCategory := JNull, ctxConfidence := None,
        llmText := JStr [], filteredOriginal := JStr [], filteredSafe := JStr [],
        finalText := JStr []\<rparr>"

section \<open>What \<^verbatim>\<open>handleSanitize\<close> computes from the responses\<close>

text \<open>
  The constants of the handler, each as a function of the response bodies it depends on:
  \<open>d1\<close> is \<^verbatim>\<open>sanitizeRes.data\<close>, \<open>d2\<close> is \<^verbatim>\<open>ctxRes.data\<close>, \<open>d3\<close> is \<^verbatim>\<open>llmRes.data\<close>,
  \<open>d4\<close> is \<^verbatim>\<open>filterRes.data\<close> and \<open>d5\<close> is \<^verbatim>\<open>finalRes.data\<close>.
\<close>

subsection \<open>Stage 1: sanitization\<close>

definition out :: "jsval \<Rightarrow> jsval" where
  "out d1 = coalesce (field d1 ''sanitized'') (JStr [])"

definition scoreRaw :: "jsval \<Rightarrow> jsval" where
  "scoreRaw d1 = coalesce (coalesce (field d1 ''risk'') (field d1 ''risk_score'')) (JNum (Fin 0))"

definition scoreNum :: "js_env \<Rightarrow> jsval \<Rightarrow> int option" where
  "scoreNum env d1 = parseInt (ToString env (scoreRaw d1))"

definition score :: "js_env \<Rightarrow> jsval \<Rightarrow> int" where
  "score env d1 = max 0 (min 100 (case scoreNum env d1 of None \<Rightarrow> 0 | Some n \<Rightarrow> n))"

definition rehydrationMap :: "jsval \<Rightarrow> jsval" where
  "rehydrationMap d1 = coalesce (field d1 ''rehydration_map'') (JObj [])"

definition entities :: "jsval \<Rightarrow> jsval" where
  "entities d1 = coalesce (field d1 ''entities'') (JArr [])"

subsection \<open>Stage 2: contextual analysis\<close>

definition cat :: "jsval \<Rightarrow> jsval" where
  "cat d2 = coalesce (field d2 ''category'') JNull"

definition confRaw :: "jsval \<Rightarrow> jsval" where
  "confRaw d2 = coalesce (field d2 ''confidence'') JNull"

definition conf :: "js_env \<Rightarrow> jsval \<Rightarrow> jsnum option" where
  "conf env d2 =
     (if nullish (confRaw d2) then None
      else Some (if le_one (ToNumber env (confRaw d2))
                 then MathRound (times100 (ToNumber env (confRaw d2)))
                 else MathRound (ToNumber env (confRaw d2))))"

definition context_obj :: "js_env \<Rightarrow> jsval \<Rightarrow> jsval" where
  "context_obj env d2 =
     JObj [(''category'', cat d2),
           (''confidence'', (case conf env d2 of None \<Rightarrow> JNull | Some n \<Rightarrow> JNum n))]"

subsection \<open>Stage 3: the language model\<close>

definition llmAnswer :: "jsval \<Rightarrow> jsval" where
  "llmAnswer d3 = coalesce (coalesce (field d3 ''answer'') (field d3 ''output'')) (JStr [])"

definition llmResult :: "jsval \<Rightarrow> jsval" where
  "llmResult d3 =
     JObj [(''answer'', llmAnswer d3),
           (''confidence'', coalesce (field d3 ''confidence'') (JNum (Fin 0))),
           (''explanations'', coalesce (field d3 ''explanations'') (JStr [])),
           (''fallback_used'', coalesce (field d3 ''fallback_used'') (JBool False)),
           (''raw'', coalesce (field d3 ''raw'') (JStr []))]"

definition llmRehydrationMap :: "jsval \<Rightarrow> jsval \<Rightarrow> jsval" where
  "llmRehydrationMap d1 d3 = coalesce (field d3 ''rehydration_map'') (rehydrationMap d1)"

subsection \<open>Stage 4: output filtering\<close>

definition filteredSafeValue :: "jsval \<Rightarrow> jsval \<Rightarrow> jsval" where
  "filteredSafeValue d3 d4 = coalesce (field d4 ''safe_sanitized_text'') (llmAnswer d3)"

definition filterRehydrationMap :: "jsval \<Rightarrow> jsval \<Rightarrow> jsval \<Rightarrow> jsval" where
  "filterRehydrationMap d1 d3 d4 =
     coalesce (field d4 ''rehydration_map'') (llmRehydrationMap d1 d3)"

subsection \<open>Stage 5: final output\<close>

definition finalTextValue :: "jsval \<Rightarrow> jsval \<Rightarrow> jsval \<Rightarrow> jsval" where
  "finalTextValue d3 d4 d5 =
     coalesce
       (coalesce (coalesce (field d5 ''final_rehydrated_text'') (field d5 ''result''))
          (field d4 ''safe_sanitized_text''))
       (llmAnswer d3)"

definition finalRaw :: "jsval \<Rightarrow> jsval" where
  "finalRaw d5 = coalesce (coalesce (field d5 ''risk'') (field d5 ''risk_score'')) (JNum (Fin 0))"

definition finalNum :: "js_env \<Rightarrow> jsval \<Rightarrow> int option" where
  "finalNum env d5 = parseInt (ToString env (finalRaw d5))"

definition finalR :: "js_env \<Rightarrow> jsval \<Rightarrow> int" where
  "finalR env d5 = max 0 (min 100 (case finalNum env d5 of None \<Rightarrow> 0 | Some n \<Rightarrow> n))"

section \<open>Requests\<close>

record request =
  url :: string
  body :: jsval
  timeout :: nat

definition API :: string where
  "API = ''http://localhost:5000''"

definition sanitizeReq :: "string \<Rightarrow> request" where
  "sanitizeReq t =
     \<lparr>url = API @ ''/api/sanitize'', body = JObj [(''input'', JStr t)], timeout = 10000\<rparr>"

definition contextReq :: "string \<Rightarrow> jsval \<Rightarrow> request" where
  "contextReq t d1 =
     \<lparr>url = API @ ''/api/context'',
      body = JObj [(''input'', JStr t), (''sanitized'', out d1)],
      timeout = 10000\<rparr>"

definition llmReq :: "js_env \<Rightarrow> jsval \<Rightarrow> jsval \<Rightarrow> request" where
  "llmReq env d1 d2 =
     \<lparr>url = API @ ''/api/llm'',
      body = JObj [(''sanitized'', out d1), (''context'', context_obj env d2),
                   (''rehydration_map'', rehydrationMap d1)],
      timeout = 20000\<rparr>"

definition filterReq :: "js_env \<Rightarrow> jsval \<Rightarrow> jsval \<Rightarrow> jsval \<Rightarrow> request" where
  "filterReq env d1 d2 d3 =
     \<lparr>url = API @ ''/api/output-filter'',
      body = JObj [(''answer'', llmAnswer d3), (''sanitized'', out d1),
                   (''context'', context_obj env d2),
                   (''rehydration_map'', llmRehydrationMap d1 d3)],
      timeout = 15000\<rparr>"

definition finalReq :: "js_env \<Rightarrow> string \<Rightarrow> jsval \<Rightarrow> jsval \<Rightarrow> jsval \<Rightarrow> jsval \<Rightarrow> request" where
  "finalReq env t d1 d2 d3 d4 =
     \<lparr>url = API @ ''/api/final'',
      body = JObj [(''input'', JStr t), (''sanitized'', out d1),
                   (''llm_result'', llmResult d3),
                   (''filtered_output'',
                      JObj [(''safe_sanitized_text'', filteredSafeValue d3 d4),
                            (''leak_detected'', coalesce (field d4 ''leak_detected'') (JBool False)),
                            (''notes'', coalesce (field d4 ''notes'') JNull)]),
                   (''entities'', entities d1), (''context'', context_obj env d2),
                   (''rehydration_map'', filterRehydrationMap d1 d3 d4)],
      timeout = 15000\<rparr>"

section \<open>The state updates of each stage\<close>

definition applySanitize :: "js_env \<Rightarrow> jsval \<Rightarrow> app_state \<Rightarrow> app_state" where
  "applySanitize env d1 st =
     st\<lparr>sanitized := out d1, risk := score env d1, lastRisk := score env d1,
        logs := \<lparr>log_text = out d1, log_score = score env d1\<rparr> # take 19 (logs st)\<rparr>"

definition applyContext :: "js_env \<Rightarrow> jsval \<Rightarrow> app_state \<Rightarrow> app_state" where
  "applyContext env d2 st = st\<lparr>ctxCategory := cat d2, ctxConfidence := conf env d2\<rparr>"

definition applyLlm :: "jsval \<Rightarrow> app_state \<Rightarrow> app_state" where
  "applyLlm d3 st = st\<lparr>llmText := llmAnswer d3\<rparr>"

definition applyFilter :: "jsval \<Rightarrow> jsval \<Rightarrow> app_state \<Rightarrow> app_state" where
  "applyFilter d3 d4 st =
     st\<lparr>filteredOriginal := llmAnswer d3, filteredSafe := filteredSafeValue d3 d4\<rparr>"

definition applyFinal :: "js_env \<Rightarrow> jsval \<Rightarrow> jsval \<Rightarrow> jsval \<Rightarrow> app_state \<Rightarrow> app_state" where
  "applyFinal env d3 d4 d5 st =
     st\<lparr>finalText := finalTextValue d3 d4 d5, finalRisk := Some (finalR env d5)\<rparr>"

section \<open>The handler\<close>

text \<open>
  A call of \<^verbatim>\<open>axios.post\<close> either resolves with a response, whose body is all the handler
  reads, or rejects (network error, timeout, error status). The backend is the function
  \<open>post\<close> from requests to \<^const>\<open>Some\<close> body or \<^const>\<open>None\<close> for a rejection. A run
  records the requests issued in order, the successive values of the state, and the state
  it ends in. The \<^verbatim>\<open>finally\<close> block is \<open>settle\<close>.
\<close>

record run =
  requests :: "request list"
  trace :: "app_state list"
  final :: app_state

definition settle :: "request list \<Rightarrow> app_state list \<Rightarrow> app_state \<Rightarrow> run" where
  "settle rs ss s =
     \<lparr>requests = rs, trace = ss @ [s\<lparr>loading := False\<rparr>], final = s\<lparr>loading := False\<rparr>\<rparr>"

definition handleSanitize :: "js_env \<Rightarrow> (request \<Rightarrow> jsval option) \<Rightarrow> app_state \<Rightarrow> run" where
  "handleSanitize env post st =
     (if trim (text_input st) = [] then \<lparr>requests = [], trace = [], final = st\<rparr>
      else
        let t = text_input st;
            s0 = clearPipeline (st\<lparr>loading := True\<rparr>);
            r1 = sanitizeReq t
        in case post r1 of
             None \<Rightarrow> settle [r1] [s0] s0
           | Some d1 \<Rightarrow>
               let s1 = applySanitize env d1 s0;
                   r2 = contextReq t d1
               in case post r2 of
                    None \<Rightarrow> settle [r1, r2] [s0, s1] s1
                  | Some d2 \<Rightarrow>
                      let s2 = applyContext env d2 s1;
                          r3 = llmReq env d1 d2
                      in case post r3 of
                           None \<Rightarrow> settle [r1, r2, r3] [s0, s1, s2] s2
                         | Some d3 \<Rightarrow>
                             let s3 = applyLlm d3 s2;
                                 r4 = filterReq env d1 d2 d3
                             in case post r4 of
                                  None \<Rightarrow> settle [r1, r2, r3, r4] [s0, s1, s2, s3] s3
                                | Some d4 \<Rightarrow>
                                    let s4 = applyFilter d3 d4 s3;
                                        r5 = finalReq env t d1 d2 d3 d4
                                    in case post r5 of
                                         None \<Rightarrow>
                                           settle [r1, r2, r3, r4, r5] [s0, s1, s2, s3, s4] s4
                                       | Some d5 \<Rightarrow>
                                           settle [r1, r2, r3, r4, r5]
                                             [s0, s1, s2, s3, s4, applyFinal env d3 d4 d5 s4]
                                             (applyFinal env d3 d4 d5 s4))"

text \<open>
  The button that calls the handler is rendered with
  \<^verbatim>\<open>disabled={loading || !text.trim()}\<close>; a disabled button delivers no click.
\<close>

definition buttonDisabled :: "app_state \<Rightarrow> bool" where
  "buttonDisabled st = (loading st \<or> trim (text_input st) = [])"

definition onClick :: "js_env \<Rightarrow> (request \<Rightarrow> jsval option) \<Rightarrow> app_state \<Rightarrow> run" where
  "onClick env post st =
     (if buttonDisabled st then \<lparr>requests = [], trace = [], final = st\<rparr>
      else handleSanitize env post st)"



section \<open>Notions used in the statements\<close>


text \<open>All five requests of a run started with the text \<open>t\<close> are answered, with these bodies.\<close>

definition succeeds ::
  "js_env \<Rightarrow> (request \<Rightarrow> jsval option) \<Rightarrow> string \<Rightarrow>
   jsval \<Rightarrow> jsval \<Rightarrow> jsval \<Rightarrow> jsval \<Rightarrow> jsval \<Rightarrow> bool" where
  "succeeds env post t d1 d2 d3 d4 d5 =
     (post (sanitizeReq t) = Some d1 \<and> post (contextReq t d1) = Some d2 \<and>
      post (llmReq env d1 d2) = Some d3 \<and> post (filterReq env d1 d2 d3) = Some d4 \<and>
      post (finalReq env t d1 d2 d3 d4) = Some d5)"

text \<open>The state in which a run that passed the guard starts.\<close>

definition started :: "app_state \<Rightarrow> app_state" where
  "started st = clearPipeline (st\<lparr>loading := True\<rparr>)"

text \<open>The state after each stage of a run, as a function of the responses so far.\<close>

definition afterSanitize :: "js_env \<Rightarrow> jsval \<Rightarrow> app_state \<Rightarrow> app_state" where
  "afterSanitize env d1 st = applySanitize env d1 (started st)"

definition afterContext :: "js_env \<Rightarrow> jsval \<Rightarrow> jsval \<Rightarrow> app_state \<Rightarrow> app_state" where
  "afterContext env d1 d2 st = applyContext env d2 (afterSanitize env d1 st)"

definition afterLlm :: "js_env \<Rightarrow> jsval \<Rightarrow> jsval \<Rightarrow> jsval \<Rightarrow> app_state \<Rightarrow> app_state" where
  "afterLlm env d1 d2 d3 st = applyLlm d3 (afterContext env d1 d2 st)"

definition afterFilter ::
  "js_env \<Rightarrow> jsval \<Rightarrow> jsval \<Rightarrow> jsval \<Rightarrow> jsval \<Rightarrow> app_state \<Rightarrow> app_state" where
  "afterFilter env d1 d2 d3 d4 st = applyFilter d3 d4 (afterLlm env d1 d2 d3 st)"

definition afterFinal ::
  "js_env \<Rightarrow> jsval \<Rightarrow> jsval \<Rightarrow> jsval \<Rightarrow> jsval \<Rightarrow> jsval \<Rightarrow> app_state \<Rightarrow> app_state" where
  "afterFinal env d1 d2 d3 d4 d5 st = applyFinal env d3 d4 d5 (afterFilter env d1 d2 d3 d4 st)"

text \<open>The result of a call that returns at the guard.\<close>

definition nothingDone :: "app_state \<Rightarrow> run" where
  "nothingDone st = \<lparr>requests = [], trace = [], final = st\<rparr>"

subsection \<open>Concrete inputs\<close>

text \<open>
  A backend given by the outcome of each endpoint, and an environment for evaluating the
  model on concrete inputs. The inputs used below contain only integers and no string is
  read as a number there, so the two functions of the environment are never consulted.
\<close>

definition backend ::
  "jsval option \<Rightarrow> jsval option \<Rightarrow> jsval option \<Rightarrow> jsval option \<Rightarrow> jsval option \<Rightarrow>
   request \<Rightarrow> jsval option" where
  "backend o1 o2 o3 o4 o5 r =
     (if url r = API @ ''/api/sanitize'' then o1
      else if url r = API @ ''/api/context'' then o2
      else if url r = API @ ''/api/llm'' then o3
      else if url r = API @ ''/api/output-filter'' then o4
      else if url r = API @ ''/api/final'' then o5
      else None)"

definition plainEnv :: js_env where
  "plainEnv = \<lparr>NumberToString = (\<lambda>x. []), StringToNumber = (\<lambda>s. NaN)\<rparr>"

text \<open>The scenario of the specification: a prompt with an e-mail address, scored 62.\<close>

definition emailPrompt :: string where
  "emailPrompt = ''My email is a@b.com''"

definition emailState :: app_state where
  "emailState = initialState\<lparr>text_input := emailPrompt\<rparr>"

definition emailSanitized :: jsval where
  "emailSanitized =
     JObj [(''sanitized'', JStr ''My email is [EMAIL]''), (''risk'', JNum (Fin 62)),
           (''rehydration_map'', JObj [(''[EMAIL]'', JStr ''a@b.com'')])]"

definition emailContext :: jsval where
  "emailContext = JObj [(''category'', JStr ''personal''), (''confidence'', JNum (Fin (73 / 100)))]"

definition emailLlm :: jsval where
  "emailLlm = JObj [(''answer'', JStr ''I have noted [EMAIL].'')]"

definition emailFilter :: jsval where
  "emailFilter = JObj [(''safe_sanitized_text'', JStr ''I have noted [EMAIL].'')]"

definition emailFinal :: jsval where
  "emailFinal = JObj [(''final_rehydrated_text'', JStr ''I have noted a@b.com.'')]"

definition emailBackend :: "request \<Rightarrow> jsval option" where
  "emailBackend =
     backend (Some emailSanitized) (Some emailContext) (Some emailLlm) (Some emailFilter)
       (Some emailFinal)"



section \<open>Reading integers\<close>















section \<open>Risk scores\<close>



section \<open>Risk bands\<close>

text \<open>
  Claim C9. The risk meter (label and colour), the badge of a row of the logs table and the
  badge of the final output panel put a score \<open>r\<close> in the low band exactly when \<open>r < 40\<close>,
  in the moderate band exactly when \<open>40 \<le> r < 70\<close>, and in the high band exactly when
  \<open>70 \<le> r\<close>. The final output panel treats a null risk as 0.
\<close>

theorem risk_bands:
  "(RiskMeter_label r = ''Low'' \<longleftrightarrow> r < 40)
   \<and> (RiskMeter_label r = ''Moderate'' \<longleftrightarrow> 40 \<le> r \<and> r < 70)
   \<and> (RiskMeter_label r = ''High'' \<longleftrightarrow> 70 \<le> r)
   \<and> (RiskMeter_color r = ''#22c55e'' \<longleftrightarrow> r < 40)
   \<and> (RiskMeter_color r = ''#facc15'' \<longleftrightarrow> 40 \<le> r \<and> r < 70)
   \<and> (RiskMeter_color r = ''#ef4444'' \<longleftrightarrow> 70 \<le> r)
   \<and> (LogsTable_badge r = ''bg-green-500/10 text-green-400 shadow-green-500/20'' \<longleftrightarrow> r < 40)
   \<and> (LogsTable_badge r = ''bg-yellow-500/10 text-yellow-300 shadow-yellow-500/20''
        \<longleftrightarrow> 40 \<le> r \<and> r < 70)
   \<and> (LogsTable_badge r = ''bg-red-500/10 text-red-400 shadow-red-500/20'' \<longleftrightarrow> 70 \<le> r)
   \<and> (FinalOutput_badge (Some r) = ''bg-green-500/10 text-green-400'' \<longleftrightarrow> r < 40)
   \<and> (FinalOutput_badge (Some r) = ''bg-yellow-500/10 text-yellow-400'' \<longleftrightarrow> 40 \<le> r \<and> r < 70)
   \<and> (FinalOutput_badge (Some r) = ''bg-red-500/10 text-red-400'' \<longleftrightarrow> 70 \<le> r)
   \<and> FinalOutput_badge None = ''bg-green-500/10 text-green-400''"
  by (auto simp: RiskMeter_label_def RiskMeter_color_def RiskMeter_clamped_def LogsTable_badge_def
      FinalOutput_badge_def FinalOutput_shown_def)

section \<open>Runs of the handler\<close>

text \<open>
  The handler is a chain of five requests; a run is determined by the first request that
  is rejected, if any. The lemmas below give the result of the handler in each case.
\<close>

lemma backend_simps:
  "backend o1 o2 o3 o4 o5 (sanitizeReq t) = o1"
  "backend o1 o2 o3 o4 o5 (contextReq t d1) = o2"
  "backend o1 o2 o3 o4 o5 (llmReq env d1 d2) = o3"
  "backend o1 o2 o3 o4 o5 (filterReq env d1 d2 d3) = o4"
  "backend o1 o2 o3 o4 o5 (finalReq env t d1 d2 d3 d4) = o5"
  by (simp_all add: backend_def sanitizeReq_def contextReq_def llmReq_def filterReq_def
      finalReq_def API_def)

lemma succeeds_backend:
  "succeeds env (backend (Some d1) (Some d2) (Some d3) (Some d4) (Some d5)) t d1 d2 d3 d4 d5"
  by (simp add: succeeds_def backend_simps)

lemma emailPrompt_nonblank: "trim (text_input emailState) \<noteq> []"
  by (simp add: emailState_def emailPrompt_def trim_def isWhiteSpace_def)

lemma run_guard:
  "trim (text_input st) = [] \<Longrightarrow> handleSanitize env post st = nothingDone st"
  by (simp add: handleSanitize_def nothingDone_def)






lemma run_success:
  assumes "trim (text_input st) \<noteq> []" "succeeds env post (text_input st) d1 d2 d3 d4 d5"
  shows "handleSanitize env post st =
         settle [sanitizeReq (text_input st), contextReq (text_input st) d1, llmReq env d1 d2,
                 filterReq env d1 d2 d3, finalReq env (text_input st) d1 d2 d3 d4]
           [started st, afterSanitize env d1 st, afterContext env d1 d2 st,
            afterLlm env d1 d2 d3 st, afterFilter env d1 d2 d3 d4 st,
            afterFinal env d1 d2 d3 d4 d5 st]
           (afterFinal env d1 d2 d3 d4 d5 st)"
  using assms
  by (simp add: handleSanitize_def succeeds_def Let_def started_def afterSanitize_def
      afterContext_def afterLlm_def afterFilter_def afterFinal_def)



lemmas stage_defs =
  started_def clearPipeline_def afterSanitize_def applySanitize_def afterContext_def
  applyContext_def afterLlm_def applyLlm_def afterFilter_def applyFilter_def afterFinal_def
  applyFinal_def

lemma settle_sel:
  "requests (settle rs ss s) = rs"
  "trace (settle rs ss s) = ss @ [s\<lparr>loading := False\<rparr>]"
  "final (settle rs ss s) = s\<lparr>loading := False\<rparr>"
  by (simp_all add: settle_def)



section \<open>Failure of a stage\<close>





section \<open>The rehydration map\<close>





lemma email_succeeds:
  "succeeds env emailBackend t emailSanitized emailContext emailLlm emailFilter emailFinal"
  by (simp add: emailBackend_def succeeds_backend)

lemma final_state_success:
  assumes "trim (text_input st) \<noteq> []" "succeeds env post (text_input st) d1 d2 d3 d4 d5"
  shows "final (handleSanitize env post st) = (afterFinal env d1 d2 d3 d4 d5 st)\<lparr>loading := False\<rparr>"
  using assms by (simp add: run_success settle_sel)




section \<open>The final output text\<close>




section \<open>The risk of the final output panel\<close>





section \<open>The guard\<close>

text \<open>
  Claim C2 says that calling \<^verbatim>\<open>handleSanitize\<close> while the loading flag is true does
  nothing. The handler tests only \<^verbatim>\<open>!text.trim()\<close>: called in a state with the flag set
  and a non-blank text, it issues all five requests and adds a log entry.
\<close>

theorem handler_ignores_loading_counterexample:
  "loading (emailState\<lparr>loading := True\<rparr>)
   \<and> requests (handleSanitize plainEnv emailBackend (emailState\<lparr>loading := True\<rparr>))
       = [sanitizeReq emailPrompt, contextReq emailPrompt emailSanitized,
          llmReq plainEnv emailSanitized emailContext,
          filterReq plainEnv emailSanitized emailContext emailLlm,
          finalReq plainEnv emailPrompt emailSanitized emailContext emailLlm emailFilter]
   \<and> logs (final (handleSanitize plainEnv emailBackend (emailState\<lparr>loading := True\<rparr>)))
       \<noteq> logs (emailState\<lparr>loading := True\<rparr>)
   \<and> final (handleSanitize plainEnv emailBackend (emailState\<lparr>loading := True\<rparr>))
       \<noteq> emailState\<lparr>loading := True\<rparr>"
proof -
  have nb: "trim (text_input (emailState\<lparr>loading := True\<rparr>)) \<noteq> []"
    using emailPrompt_nonblank by simp
  have t: "text_input (emailState\<lparr>loading := True\<rparr>) = emailPrompt"
    by (simp add: emailState_def)
  have ok: "succeeds plainEnv emailBackend (text_input (emailState\<lparr>loading := True\<rparr>))
      emailSanitized emailContext emailLlm emailFilter emailFinal"
    by (rule email_succeeds)
  have l: "logs (final (handleSanitize plainEnv emailBackend (emailState\<lparr>loading := True\<rparr>)))
      \<noteq> logs (emailState\<lparr>loading := True\<rparr>)"
    unfolding final_state_success [OF nb ok]
    by (simp add: stage_defs emailState_def initialState_def)
  then have "final (handleSanitize plainEnv emailBackend (emailState\<lparr>loading := True\<rparr>))
      \<noteq> emailState\<lparr>loading := True\<rparr>"
    by auto
  with l show ?thesis
    using t by (simp add: run_success [OF nb ok] settle_sel)
qed

text \<open>
  Claim C2 as amended. While the loading flag is true the button is disabled, so a click
  issues no request and leaves the state unchanged. The handler itself returns without
  doing anything exactly when the text is empty or white space only (where the button is
  disabled as well); when the flag is false a click is a call of the handler, and whenever
  the text is not blank the handler issues the sanitize request.
\<close>

theorem click_while_loading_is_noop:
  "(loading st \<longrightarrow>
      requests (onClick env post st) = [] \<and> trace (onClick env post st) = [] \<and>
      final (onClick env post st) = st)
   \<and> (trim (text_input st) = [] \<longrightarrow>
      requests (handleSanitize env post st) = [] \<and> trace (handleSanitize env post st) = [] \<and>
      final (handleSanitize env post st) = st \<and> onClick env post st = handleSanitize env post st)
   \<and> (\<not> loading st \<longrightarrow> onClick env post st = handleSanitize env post st)
   \<and> (trim (text_input st) \<noteq> [] \<longrightarrow>
      requests (handleSanitize env post st) \<noteq> [] \<and>
      hd (requests (handleSanitize env post st)) = sanitizeReq (text_input st))"
proof -
  have a: "requests (handleSanitize env post st) \<noteq> [] \<and>
      hd (requests (handleSanitize env post st)) = sanitizeReq (text_input st)"
    if "trim (text_input st) \<noteq> []"
    using that by (simp add: handleSanitize_def Let_def settle_sel split: option.splits)
  have b: "onClick env post st = handleSanitize env post st" if "\<not> loading st"
    using that by (simp add: onClick_def buttonDisabled_def run_guard nothingDone_def)
  show ?thesis
    using a b by (simp add: onClick_def buttonDisabled_def run_guard nothingDone_def)
qed

theorem click_while_loading_is_noop_witness:
  "loading (emailState\<lparr>loading := True\<rparr>)
   \<and> requests (onClick plainEnv emailBackend (emailState\<lparr>loading := True\<rparr>)) = []
   \<and> final (onClick plainEnv emailBackend (emailState\<lparr>loading := True\<rparr>))
       = emailState\<lparr>loading := True\<rparr>
   \<and> trim (text_input initialState) = []
   \<and> requests (handleSanitize plainEnv emailBackend initialState) = []
   \<and> final (handleSanitize plainEnv emailBackend initialState) = initialState
   \<and> \<not> loading emailState
   \<and> trim (text_input emailState) \<noteq> []
   \<and> hd (requests (onClick plainEnv emailBackend emailState)) = sanitizeReq emailPrompt"
proof -
  have a: "loading (emailState\<lparr>loading := True\<rparr>)" by simp
  have b: "trim (text_input initialState) = []"
    by (simp add: initialState_def trim_def)
  have c: "\<not> loading emailState" "text_input emailState = emailPrompt"
    by (simp_all add: emailState_def initialState_def)
  show ?thesis
    using a b c emailPrompt_nonblank
      click_while_loading_is_noop [of "emailState\<lparr>loading := True\<rparr>" plainEnv emailBackend]
      click_while_loading_is_noop [of initialState plainEnv emailBackend]
      click_while_loading_is_noop [of emailState plainEnv emailBackend]
    by simp
qed


section \<open>The states of a run and the reachable states\<close>












section \<open>The log\<close>




section \<open>The risk meter\<close>




section \<open>The confidence of the context stage\<close>











end
